theory Spec2Isabelle
  imports Complex_Main "HOL-Library.Word"
begin

section \<open>Capture controller (app.js)\<close>

text \<open>
  The recording logic of \<^verbatim>\<open>app.js\<close> keeps its state in module-level variables:
  \<^verbatim>\<open>appState\<close> (one of the strings idle, recording, paused), \<^verbatim>\<open>clipCounter\<close>,
  \<^verbatim>\<open>mediaRecorder\<close> and \<^verbatim>\<open>recordedChunks\<close>. The handlers mutate them in place; here
  each handler takes the state and returns the new one. The host objects the handlers
  drive (the MediaRecorder, the audio element, the visualizer loop, the status line and
  the download container) are fields of the same record.
\<close>

datatype capture_state = Idle | Recording | Paused

text \<open>A MediaRecorder is either inactive or recording; the code never pauses the recorder itself.\<close>

datatype recorder_state = Inactive | Active

datatype js_error = TypeError | InvalidStateError | SyntaxError

text \<open>The texts written to \<^verbatim>\<open>elements.statusMessage.textContent\<close>.\<close>

datatype status =
    StatusInitial
  | StatusRecordingClip nat
  | StatusErrorStarting
  | StatusClipReady nat
  | StatusPaused
  | StatusFinished

text \<open>
  One download link appended by \<^verbatim>\<open>createDownloadLink\<close>: the clip number in its file
  name and the sizes of the fragments in its blob.
\<close>

record artifact =
  clip :: nat
  fragments :: "nat list"

record app =
  appState :: capture_state
  clipCounter :: nat
  mediaRecorder :: "recorder_state option"
  recordedChunks :: "nat list"
  downloads :: "artifact list"
  statusMessage :: status
  pendingStops :: nat
  audioContextReady :: bool
  audioPlaying :: bool
  loopRunning :: bool
  awaitingResume :: nat
  awaitingPlay :: nat

text \<open>The module-level initialisers: \<^verbatim>\<open>let appState = 'idle'; let clipCounter = 0; let mediaRecorder; let recordedChunks = [];\<close>\<close>

definition initial :: app where
  "initial = \<lparr>appState = Idle, clipCounter = 0, mediaRecorder = None, recordedChunks = [],
     downloads = [], statusMessage = StatusInitial, pendingStops = 0,
     audioContextReady = False, audioPlaying = False, loopRunning = False,
     awaitingResume = 0, awaitingPlay = 0\<rparr>"

text \<open>
  \<^verbatim>\<open>mediaRecorder.start()\<close> and \<^verbatim>\<open>mediaRecorder.stop()\<close>. The variable is undefined until
  \<^verbatim>\<open>setupMediaRecorder\<close> has run, and a method call on undefined throws a TypeError.
  \<^verbatim>\<open>start\<close> on a recorder that is already recording throws an InvalidStateError;
  \<^verbatim>\<open>stop\<close> on an inactive recorder does nothing. A stop of an active recorder queues
  its finalisation (a dataavailable event followed by a stop event), delivered later
  by the host: \<open>pendingStops\<close> counts the queued ones.
\<close>

definition recorder_start :: "app \<Rightarrow> js_error + app" where
  "recorder_start a =
     (case mediaRecorder a of
        None \<Rightarrow> Inl TypeError
      | Some Active \<Rightarrow> Inl InvalidStateError
      | Some Inactive \<Rightarrow> Inr (a\<lparr>mediaRecorder := Some Active\<rparr>))"

definition recorder_stop :: "app \<Rightarrow> js_error + app" where
  "recorder_stop a =
     (case mediaRecorder a of
        None \<Rightarrow> Inl TypeError
      | Some Inactive \<Rightarrow> Inr a
      | Some Active \<Rightarrow> Inr (a\<lparr>mediaRecorder := Some Inactive, pendingStops := pendingStops a + 1\<rparr>))"

text \<open>
  \<^verbatim>\<open>handleStart\<close> is an \<^verbatim>\<open>async\<close> function. It awaits three host operations (setting up
  the audio graph, resuming the audio context, starting playback) and then creates and
  starts the recorder. Each of the five steps can fail; the parameter says which one
  does, if any. The increment of the clip counter comes before the first of them,
  inside the \<^verbatim>\<open>try\<close>.

  \<open>handleStart\<close> below is the whole handler when its awaits settle before any other
  task runs. While it waits for the host other tasks can run: for that the handler is
  also given in its three parts, \<open>startBegin\<close> (up to the wait for the audio context),
  \<open>resumeSettled\<close> (from there to the wait for playback) and \<open>playSettled\<close> (the rest).
  \<open>awaitingResume\<close> and \<open>awaitingPlay\<close> count the calls that wait at either point.
  The first await, on \<^verbatim>\<open>setupAudio()\<close>, whose body has no await of its own, resumes in
  the same task. A context that is not suspended is not waited for: that is
  \<open>resumeSettled\<close> following \<open>startBegin\<close> at once.
\<close>

datatype start_failure =
    SetupAudioRejected
  | ContextResumeRejected
  | PlayRejected
  | SetupRecorderThrows
  | RecorderStartThrows

text \<open>The \<^verbatim>\<open>catch\<close> block of \<^verbatim>\<open>handleStart\<close>.\<close>

definition start_catch :: "app \<Rightarrow> app" where
  "start_catch a = a\<lparr>appState := Idle, statusMessage := StatusErrorStarting\<rparr>"

definition handleStart :: "start_failure option \<Rightarrow> app \<Rightarrow> app \<times> js_error option" where
  "handleStart host a =
     (if appState a \<noteq> Idle then (a, None)
      else
        let a1 = a\<lparr>appState := Recording,
                    clipCounter := clipCounter a + 1,
                    statusMessage := StatusRecordingClip (clipCounter a + 1)\<rparr>
        in (case host of
              Some SetupAudioRejected \<Rightarrow> start_catch a1
            | Some ContextResumeRejected \<Rightarrow> start_catch (a1\<lparr>audioContextReady := True\<rparr>)
            | Some PlayRejected \<Rightarrow> start_catch (a1\<lparr>audioContextReady := True\<rparr>)
            | Some SetupRecorderThrows \<Rightarrow>
                start_catch (a1\<lparr>audioContextReady := True, audioPlaying := True\<rparr>)
            | Some RecorderStartThrows \<Rightarrow>
                start_catch (a1\<lparr>audioContextReady := True, audioPlaying := True,
                                mediaRecorder := Some Inactive\<rparr>)
            | None \<Rightarrow>
                a1\<lparr>audioContextReady := True, audioPlaying := True,
                   mediaRecorder := Some Active, loopRunning := True\<rparr>,
            None))"

definition startBegin :: "start_failure option \<Rightarrow> app \<Rightarrow> app \<times> js_error option" where
  "startBegin host a =
     (if appState a \<noteq> Idle then (a, None)
      else
        let a1 = a\<lparr>appState := Recording,
                    clipCounter := clipCounter a + 1,
                    statusMessage := StatusRecordingClip (clipCounter a + 1)\<rparr>
        in (case host of
              Some SetupAudioRejected \<Rightarrow> start_catch a1
            | _ \<Rightarrow> a1\<lparr>audioContextReady := True, awaitingResume := awaitingResume a1 + 1\<rparr>,
            None))"

definition resumeSettled :: "start_failure option \<Rightarrow> app \<Rightarrow> app" where
  "resumeSettled host a =
     (if awaitingResume a = 0 then a
      else
        let a1 = a\<lparr>awaitingResume := awaitingResume a - 1\<rparr>
        in (case host of
              Some ContextResumeRejected \<Rightarrow> start_catch a1
            | _ \<Rightarrow> a1\<lparr>awaitingPlay := awaitingPlay a1 + 1\<rparr>))"

definition playSettled :: "start_failure option \<Rightarrow> app \<Rightarrow> app" where
  "playSettled host a =
     (if awaitingPlay a = 0 then a
      else
        let a1 = a\<lparr>awaitingPlay := awaitingPlay a - 1\<rparr>
        in (case host of
              Some PlayRejected \<Rightarrow> start_catch a1
            | Some SetupRecorderThrows \<Rightarrow> start_catch (a1\<lparr>audioPlaying := True\<rparr>)
            | Some RecorderStartThrows \<Rightarrow>
                start_catch (a1\<lparr>audioPlaying := True, mediaRecorder := Some Inactive\<rparr>)
            | _ \<Rightarrow>
                a1\<lparr>audioPlaying := True, mediaRecorder := Some Active, loopRunning := True\<rparr>))"

definition handlePause :: "app \<Rightarrow> app \<times> js_error option" where
  "handlePause a =
     (if appState a \<noteq> Recording then (a, None)
      else
        let a1 = a\<lparr>appState := Paused, statusMessage := StatusPaused,
                    audioPlaying := False, loopRunning := False\<rparr>
        in (case recorder_stop a1 of
              Inl e \<Rightarrow> (a1, Some e)
            | Inr a2 \<Rightarrow> (a2, None)))"

definition handleResume :: "app \<Rightarrow> app \<times> js_error option" where
  "handleResume a =
     (if appState a \<noteq> Paused then (a, None)
      else
        let a1 = a\<lparr>appState := Recording,
                    clipCounter := clipCounter a + 1,
                    statusMessage := StatusRecordingClip (clipCounter a + 1),
                    audioPlaying := True, loopRunning := True\<rparr>
        in (case recorder_start a1 of
              Inl e \<Rightarrow> (a1, Some e)
            | Inr a2 \<Rightarrow> (a2, None)))"

definition handleStop :: "app \<Rightarrow> app \<times> js_error option" where
  "handleStop a =
     (if appState a = Idle then (a, None)
      else
        (case (if appState a = Recording then recorder_stop a else Inr a) of
           Inl e \<Rightarrow> (a, Some e)
         | Inr a1 \<Rightarrow>
             (a1\<lparr>appState := Idle, statusMessage := StatusFinished,
                 audioPlaying := False, loopRunning := False\<rparr>, None)))"

text \<open>
  The recorder's callbacks. \<^verbatim>\<open>ondataavailable\<close> keeps a fragment when it is not empty;
  \<^verbatim>\<open>onstop\<close> wraps the fragments gathered so far into one blob, empties the list and
  appends one download link named after the current value of \<^verbatim>\<open>clipCounter\<close>.
\<close>

definition ondataavailable :: "nat \<Rightarrow> app \<Rightarrow> app" where
  "ondataavailable size_of_data a =
     (if size_of_data > 0 then a\<lparr>recordedChunks := recordedChunks a @ [size_of_data]\<rparr> else a)"

definition onstop :: "app \<Rightarrow> app" where
  "onstop a =
     (let link = \<lparr>clip = clipCounter a, fragments = recordedChunks a\<rparr>;
          a1 = a\<lparr>recordedChunks := [], downloads := downloads a @ [link]\<rparr>
      in if appState a1 = Paused then a1\<lparr>statusMessage := StatusClipReady (clipCounter a1)\<rparr>
         else a1)"

text \<open>
  The host delivering one queued finalisation: the data gathered since the recorder
  started, then the stop event. Without a queued stop the sink fires nothing.
\<close>

definition sinkFinalize :: "nat \<Rightarrow> app \<Rightarrow> app" where
  "sinkFinalize size_of_data a =
     (if pendingStops a = 0 then a
      else onstop (ondataavailable size_of_data (a\<lparr>pendingStops := pendingStops a - 1\<rparr>)))"

text \<open>
  The tasks: the four requests (\<open>Start\<close> being a start request that is not interleaved
  with other tasks), the delivery of a queued finalisation, and the three parts of a
  start request that is.
\<close>

datatype event =
    Start "start_failure option"
  | Pause
  | Resume
  | Stop
  | SinkFinalize nat
  | StartBegin "start_failure option"
  | ResumeSettled "start_failure option"
  | PlaySettled "start_failure option"

fun handle :: "event \<Rightarrow> app \<Rightarrow> app \<times> js_error option" where
  "handle (Start host) a = handleStart host a"
| "handle Pause a = handlePause a"
| "handle Resume a = handleResume a"
| "handle Stop a = handleStop a"
| "handle (SinkFinalize d) a = (sinkFinalize d a, None)"
| "handle (StartBegin host) a = startBegin host a"
| "handle (ResumeSettled host) a = (resumeSettled host a, None)"
| "handle (PlaySettled host) a = (playSettled host a, None)"


text \<open>
  Every handler runs as a task of its own on the event loop; an error thrown by one is
  reported by the host and the next task finds the variables as the failed one left them.
\<close>

fun run :: "event list \<Rightarrow> app \<Rightarrow> app" where
  "run [] a = a"
| "run (e # es) a = run es (fst (handle e a))"







section \<open>Visualizer: settings and frame scheduling (visualizer.js)\<close>

text \<open>
  The fields of \<^verbatim>\<open>this.settings\<close>, typed as the settings record of the program documents
  them: the style, theme, position and mirror mode are strings, the bar count and the
  frame rate are integers, the rest are numbers. JavaScript numbers are modelled as
  exact reals.
\<close>

record visual_settings =
  barStyle :: string
  sensitivity :: real
  colorTheme :: string
  animationSpeed :: real
  position :: string
  barCount :: int
  mirrorMode :: string
  glowIntensity :: real
  frameRate :: int

text \<open>
  The state of an \<^verbatim>\<open>AudioVisualizer\<close>. \<open>dataArray\<close> is null or a \<^verbatim>\<open>Uint8Array\<close>;
  \<open>animationFrameId\<close> says whether a repaint callback is armed.
\<close>

record visualizer =
  settings :: visual_settings
  canvas_width :: nat
  canvas_height :: nat
  analyser :: bool
  dataArray :: "8 word list option"
  bufferLength :: nat
  animationFrameId :: bool
  lastFrameTime :: real
  targetFrameInterval :: real
  animationFrame :: real
  backgroundNeedsUpdate :: bool

text \<open>The constructor, for a canvas element of the given size.\<close>

definition new_visualizer :: "nat \<Rightarrow> nat \<Rightarrow> visualizer" where
  "new_visualizer w h =
     \<lparr>settings = \<lparr>barStyle = ''gradient'', sensitivity = 3 / 2, colorTheme = ''default'',
        animationSpeed = 1, position = ''bottom'', barCount = 64, mirrorMode = ''none'',
        glowIntensity = 0, frameRate = 30\<rparr>,
      canvas_width = w, canvas_height = h, analyser = False, dataArray = None,
      bufferLength = 0, animationFrameId = False, lastFrameTime = 0,
      targetFrameInterval = 1000 / 30, animationFrame = 0, backgroundNeedsUpdate = True\<rparr>"

text \<open>
  \<^verbatim>\<open>setupAudio\<close> returns at once when the audio context exists. Otherwise it creates the
  analyser with \<^verbatim>\<open>fftSize = 512\<close>, so that \<^verbatim>\<open>frequencyBinCount\<close> is 256, and a
  \<^verbatim>\<open>Uint8Array\<close> of that length, which starts filled with zeros.
\<close>

definition setupAudio :: "visualizer \<Rightarrow> visualizer" where
  "setupAudio v =
     (if analyser v then v
      else v\<lparr>analyser := True, bufferLength := 256, dataArray := Some (replicate 256 0)\<rparr>)"

text \<open>
  The argument of \<^verbatim>\<open>updateSettings\<close>: an object holding any subset of the settings, and
  possibly a width and a height for the canvas.
\<close>

record settings_update =
  new_barStyle :: "string option"
  new_sensitivity :: "real option"
  new_colorTheme :: "string option"
  new_animationSpeed :: "real option"
  new_position :: "string option"
  new_barCount :: "int option"
  new_mirrorMode :: "string option"
  new_glowIntensity :: "real option"
  new_frameRate :: "int option"
  new_width :: "nat option"
  new_height :: "nat option"

definition no_update :: settings_update where
  "no_update = \<lparr>new_barStyle = None, new_sensitivity = None, new_colorTheme = None,
     new_animationSpeed = None, new_position = None, new_barCount = None,
     new_mirrorMode = None, new_glowIntensity = None, new_frameRate = None,
     new_width = None, new_height = None\<rparr>"

text \<open>The spread \<^verbatim>\<open>{ ...this.settings, ...newSettings }\<close>: a field that is given replaces the old one.\<close>

definition merge_settings :: "visual_settings \<Rightarrow> settings_update \<Rightarrow> visual_settings" where
  "merge_settings s u =
     \<lparr>barStyle = (case new_barStyle u of Some x \<Rightarrow> x | None \<Rightarrow> barStyle s),
      sensitivity = (case new_sensitivity u of Some x \<Rightarrow> x | None \<Rightarrow> sensitivity s),
      colorTheme = (case new_colorTheme u of Some x \<Rightarrow> x | None \<Rightarrow> colorTheme s),
      animationSpeed = (case new_animationSpeed u of Some x \<Rightarrow> x | None \<Rightarrow> animationSpeed s),
      position = (case new_position u of Some x \<Rightarrow> x | None \<Rightarrow> position s),
      barCount = (case new_barCount u of Some x \<Rightarrow> x | None \<Rightarrow> barCount s),
      mirrorMode = (case new_mirrorMode u of Some x \<Rightarrow> x | None \<Rightarrow> mirrorMode s),
      glowIntensity = (case new_glowIntensity u of Some x \<Rightarrow> x | None \<Rightarrow> glowIntensity s),
      frameRate = (case new_frameRate u of Some x \<Rightarrow> x | None \<Rightarrow> frameRate s)\<rparr>"

text \<open>
  The tests \<^verbatim>\<open>if (newSettings.frameRate)\<close>, \<^verbatim>\<open>if (width)\<close> and the like: an absent field
  is undefined and a zero is falsy; every other integer is truthy.
\<close>

definition truthy_int :: "int option \<Rightarrow> bool" where
  "truthy_int x = (case x of None \<Rightarrow> False | Some n \<Rightarrow> n \<noteq> 0)"

definition truthy_nat :: "nat option \<Rightarrow> bool" where
  "truthy_nat x = (case x of None \<Rightarrow> False | Some n \<Rightarrow> n \<noteq> 0)"

definition updateCanvasSize :: "nat option \<Rightarrow> nat option \<Rightarrow> visualizer \<Rightarrow> visualizer" where
  "updateCanvasSize width height v =
     (let v1 = (if truthy_nat width then v\<lparr>canvas_width := the width\<rparr> else v);
          v2 = (if truthy_nat height then v1\<lparr>canvas_height := the height\<rparr> else v1)
      in v2\<lparr>backgroundNeedsUpdate := True\<rparr>)"

text \<open>
  \<^verbatim>\<open>parseInt\<close> of an integer: the argument is written out as a string and the longest
  prefix that is a sign followed by decimal digits is read back. Below \<open>10\<^sup>2\<^sup>1\<close> in
  absolute value a number is written with all its digits, so that the result is the
  number itself. From \<open>10\<^sup>2\<^sup>1\<close> on it is written in exponent notation, one digit before
  the point or the letter e (\<^verbatim>\<open>1e+21\<close>, \<^verbatim>\<open>2.5e+21\<close>), and only that digit is read. The
  digits are those of the exact value of the number.
\<close>

fun leading_digit :: "nat \<Rightarrow> nat" where
  "leading_digit n = (if n < 10 then n else leading_digit (n div 10))"

declare leading_digit.simps [simp del]

definition parseInt :: "int \<Rightarrow> int" where
  "parseInt n =
     (if \<bar>n\<bar> < 10 ^ 21 then n else sgn n * int (leading_digit (nat \<bar>n\<bar>)))"

definition updateSettings :: "settings_update \<Rightarrow> visualizer \<Rightarrow> visualizer" where
  "updateSettings newSettings v =
     (let v1 = v\<lparr>settings := merge_settings (settings v) newSettings\<rparr>;
          v2 = (if truthy_int (new_frameRate newSettings)
                then v1\<lparr>targetFrameInterval :=
                             1000 / of_int (parseInt (the (new_frameRate newSettings)))\<rparr>
                else v1)
      in if truthy_nat (new_width newSettings) \<or> truthy_nat (new_height newSettings)
         then updateCanvasSize (new_width newSettings) (new_height newSettings) v2
         else v2)"

text \<open>
  \<^verbatim>\<open>analyser.getByteFrequencyData(this.dataArray)\<close> overwrites the array in place with the
  samples the host has; the array keeps its length.
\<close>

definition getByteFrequencyData :: "8 word list \<Rightarrow> 8 word list \<Rightarrow> 8 word list" where
  "getByteFrequencyData polled arr = take (length arr) polled @ drop (length polled) arr"

text \<open>
  \<^verbatim>\<open>loop(timestamp)\<close>, called by the host once per repaint with the time in milliseconds
  and, from \<^verbatim>\<open>handleStart\<close> and \<^verbatim>\<open>handleResume\<close>, once with 0. It re-arms the callback,
  then either returns or computes a frame. The result says whether \<^verbatim>\<open>draw()\<close> was called;
  what \<^verbatim>\<open>draw()\<close> paints is modelled below. (The method \<^verbatim>\<open>start()\<close> of the class, which
  calls \<^verbatim>\<open>loop\<close> without a timestamp, has no caller in the program.)
\<close>

definition loop :: "real \<Rightarrow> 8 word list \<Rightarrow> visualizer \<Rightarrow> bool \<times> visualizer" where
  "loop timestamp polled v =
     (let v1 = v\<lparr>animationFrameId := True\<rparr>
      in if timestamp - lastFrameTime v1 < targetFrameInterval v1 then (False, v1)
         else
           let v2 = v1\<lparr>lastFrameTime := timestamp\<rparr>;
               v3 = (if analyser v2
                     then v2\<lparr>dataArray := map_option (getByteFrequencyData polled) (dataArray v2)\<rparr>
                     else v2)
           in (True, v3\<lparr>animationFrame := animationFrame v3 + animationSpeed (settings v3)\<rparr>))"

text \<open>The decisions of a sequence of repaint callbacks.\<close>

fun ticks :: "real list \<Rightarrow> 8 word list \<Rightarrow> visualizer \<Rightarrow> bool list" where
  "ticks [] polled v = []"
| "ticks (t # ts) polled v = fst (loop t polled v) # ticks ts polled (snd (loop t polled v))"

fun after_ticks :: "real list \<Rightarrow> 8 word list \<Rightarrow> visualizer \<Rightarrow> visualizer" where
  "after_ticks [] polled v = v"
| "after_ticks (t # ts) polled v = after_ticks ts polled (snd (loop t polled v))"

section \<open>Visualizer: colour schemes\<close>

text \<open>
  A colour is written in the source as a CSS string, \<^verbatim>\<open>rgba(r, g, b, a)\<close> or
  \<^verbatim>\<open>hsla(h, s%, l%, a)\<close>; here it is the constructor with the numbers of the string.
\<close>

datatype color = Rgba nat nat nat real | Hsla real real real real

text \<open>
  What \<^verbatim>\<open>getColorScheme\<close> can return: an array of colours, or, when the theme names a
  member that the \<^verbatim>\<open>schemes\<close> object inherits from \<^verbatim>\<open>Object.prototype\<close>, that member (a
  function or the prototype object), which is truthy and has no indexed elements.
\<close>

datatype scheme_value = Colors "color list" | Inherited string

text \<open>The own properties of the \<^verbatim>\<open>schemes\<close> object literal; \<open>None\<close> is the \<^verbatim>\<open>null\<close> of \<^verbatim>\<open>rainbow\<close>.\<close>

definition default_scheme :: "color list" where
  "default_scheme = [Rgba 59 130 246 (8 / 10), Rgba 139 92 246 (7 / 10), Rgba 236 72 153 (6 / 10)]"

definition schemes :: "(string \<times> color list option) list" where
  "schemes =
     [(''default'', Some default_scheme),
      (''fire'', Some [Rgba 255 69 0 (8 / 10), Rgba 255 140 0 (7 / 10), Rgba 255 215 0 (6 / 10)]),
      (''ocean'', Some [Rgba 0 119 182 (8 / 10), Rgba 0 180 216 (7 / 10), Rgba 72 202 228 (6 / 10)]),
      (''forest'', Some [Rgba 34 139 34 (8 / 10), Rgba 50 205 50 (7 / 10), Rgba 144 238 144 (6 / 10)]),
      (''sunset'', Some [Rgba 255 94 77 (8 / 10), Rgba 251 133 0 (7 / 10), Rgba 255 193 7 (6 / 10)]),
      (''neon'', Some [Rgba 57 255 20 (8 / 10), Rgba 255 20 147 (7 / 10), Rgba 0 191 255 (6 / 10)]),
      (''rainbow'', None)]"

text \<open>
  The property names every object literal inherits from \<^verbatim>\<open>Object.prototype\<close>. A lookup
  \<^verbatim>\<open>schemes[key]\<close> with one of these keys finds the inherited member.
\<close>

definition object_prototype_keys :: "string list" where
  "object_prototype_keys =
     [''constructor'', ''__proto__'', ''hasOwnProperty'', ''isPrototypeOf'',
      ''propertyIsEnumerable'', ''toLocaleString'', ''toString'', ''valueOf'',
      ''__defineGetter__'', ''__defineSetter__'', ''__lookupGetter__'', ''__lookupSetter__'']"

text \<open>
  \<^verbatim>\<open>schemes[key] || schemes.default\<close>: the own property if there is one and it is not null,
  else the inherited member if the key names one, else (undefined or null being falsy)
  the default scheme.
\<close>

definition scheme_or_default :: "string \<Rightarrow> scheme_value" where
  "scheme_or_default key =
     (case map_of schemes key of
        Some (Some cs) \<Rightarrow> Colors cs
      | Some None \<Rightarrow> Colors default_scheme
      | None \<Rightarrow> if key \<in> set object_prototype_keys then Inherited key else Colors default_scheme)"

text \<open>
  The remainder operator \<^verbatim>\<open>%\<close> of JavaScript on finite numbers with a non-zero divisor:
  the quotient is truncated towards zero, so the result has the sign of the dividend.
\<close>

definition js_trunc :: "real \<Rightarrow> int" where
  "js_trunc x = (if 0 \<le> x then \<lfloor>x\<rfloor> else \<lceil>x\<rceil>)"

definition js_rem :: "real \<Rightarrow> real \<Rightarrow> real" where
  "js_rem x y = x - y * of_int (js_trunc (x / y))"

definition rainbow_hue :: "visualizer \<Rightarrow> nat \<Rightarrow> real" where
  "rainbow_hue v i =
     js_rem (animationFrame v * animationSpeed (settings v) + of_nat i * 120) 360"

definition getColorScheme :: "visualizer \<Rightarrow> scheme_value" where
  "getColorScheme v =
     (if colorTheme (settings v) = ''rainbow''
      then Colors (map (\<lambda>i. Hsla (rainbow_hue v i) 80 60 (8 / 10)) [0..<3])
      else scheme_or_default (colorTheme (settings v)))"


section \<open>The drawing surface\<close>

text \<open>
  The 2D context of the canvas, as far as the draw methods use it. The methods only
  ever scale and translate, so the current transformation is an axis-aligned affine map
  \<open>(x, y) \<mapsto> (sx * x + tx, sy * y + ty)\<close> from user space to the pixels of the canvas.
\<close>

type_synonym point = "real \<times> real"

record xform =
  sx :: real
  tx :: real
  sy :: real
  ty :: real

definition identity :: xform where
  "identity = \<lparr>sx = 1, tx = 0, sy = 1, ty = 0\<rparr>"

definition apply_xform :: "xform \<Rightarrow> point \<Rightarrow> point" where
  "apply_xform m p = (sx m * fst p + tx m, sy m * snd p + ty m)"

text \<open>\<^verbatim>\<open>ctx.scale(a, b)\<close> and \<^verbatim>\<open>ctx.translate(dx, dy)\<close> act on user space, before the old map.\<close>

definition scale_xform :: "real \<Rightarrow> real \<Rightarrow> xform \<Rightarrow> xform" where
  "scale_xform a b m = m\<lparr>sx := sx m * a, sy := sy m * b\<rparr>"

definition translate_xform :: "real \<Rightarrow> real \<Rightarrow> xform \<Rightarrow> xform" where
  "translate_xform dx dy m = m\<lparr>tx := tx m + sx m * dx, ty := ty m + sy m * dy\<rparr>"

text \<open>A fill or stroke style: a colour, or a linear gradient between two points with its colour stops.\<close>

datatype paint = Solid color | LinearGradient point point "(real \<times> color) list"

definition paint_on_canvas :: "xform \<Rightarrow> paint \<Rightarrow> paint" where
  "paint_on_canvas m s =
     (case s of
        Solid col \<Rightarrow> Solid col
      | LinearGradient p q stops \<Rightarrow> LinearGradient (apply_xform m p) (apply_xform m q) stops)"

text \<open>The part of the drawing state that \<^verbatim>\<open>save()\<close> pushes and \<^verbatim>\<open>restore()\<close> pops.\<close>

record gstate =
  ctm :: xform
  fillStyle :: paint
  strokeStyle :: paint
  lineWidth :: real
  shadowBlur :: real
  shadowColor :: color

text \<open>
  What ends up on the canvas, in canvas coordinates: a filled rectangle (two opposite
  corners, its paint, the shadow blur and colour) or a stroked path (its subpaths, each
  a list of points and whether it is closed, the paint, the line width and the shadow).
\<close>

datatype shape =
    FilledRect point point paint real color
  | StrokedPath "(point list \<times> bool) list" paint real real color

record ctx2d =
  gs :: gstate
  stack :: "gstate list"
  path :: "(point list \<times> bool) list"
  painted :: "shape list"

text \<open>
  The calls a draw method makes on the context. A numeric argument computed from a
  spectrum sample can be NaN (when the sample read is undefined); \<open>None\<close> stands for
  an argument list with a NaN in it. A colour argument is \<open>None\<close> when the colour read
  from the scheme is undefined. \<open>SetFillStyleGradient\<close> is the sequence
  \<^verbatim>\<open>createLinearGradient\<close>, \<^verbatim>\<open>addColorStop\<close> for each stop, assignment to \<^verbatim>\<open>fillStyle\<close>.
\<close>

datatype call =
    Save
  | Restore
  | Scale real real
  | Translate real real
  | SetShadowBlur real
  | SetShadowColor "color option"
  | SetFillStyle "color option"
  | SetFillStyleGradient "(point \<times> point) option" "(real \<times> color option) list"
  | FillRect "(real \<times> real \<times> real \<times> real) option"
  | SetStrokeStyle "color option"
  | SetLineWidth real
  | BeginPath
  | MoveTo "point option"
  | LineTo "point option"
  | ClosePath
  | Stroke

text \<open>
  One call. Assigning an undefined colour to \<^verbatim>\<open>fillStyle\<close>, \<^verbatim>\<open>strokeStyle\<close> or
  \<^verbatim>\<open>shadowColor\<close> is ignored; \<^verbatim>\<open>fillRect\<close>, \<^verbatim>\<open>moveTo\<close> and \<^verbatim>\<open>lineTo\<close> with a NaN argument
  do nothing, and so does \<^verbatim>\<open>fillRect\<close> with a zero width or height. The two calls that
  throw: \<^verbatim>\<open>createLinearGradient\<close> with a NaN argument (TypeError) and \<^verbatim>\<open>addColorStop\<close>
  with a colour that does not parse (SyntaxError).
\<close>

fun step :: "call \<Rightarrow> ctx2d \<Rightarrow> js_error + ctx2d" where
  "step Save c = Inr (c\<lparr>stack := gs c # stack c\<rparr>)"
| "step Restore c =
     (case stack c of [] \<Rightarrow> Inr c | g # rest \<Rightarrow> Inr (c\<lparr>gs := g, stack := rest\<rparr>))"
| "step (Scale a b) c = Inr (c\<lparr>gs := (gs c)\<lparr>ctm := scale_xform a b (ctm (gs c))\<rparr>\<rparr>)"
| "step (Translate dx dy) c =
     Inr (c\<lparr>gs := (gs c)\<lparr>ctm := translate_xform dx dy (ctm (gs c))\<rparr>\<rparr>)"
| "step (SetShadowBlur b) c = Inr (c\<lparr>gs := (gs c)\<lparr>shadowBlur := b\<rparr>\<rparr>)"
| "step (SetShadowColor None) c = Inr c"
| "step (SetShadowColor (Some col)) c = Inr (c\<lparr>gs := (gs c)\<lparr>shadowColor := col\<rparr>\<rparr>)"
| "step (SetFillStyle None) c = Inr c"
| "step (SetFillStyle (Some col)) c = Inr (c\<lparr>gs := (gs c)\<lparr>fillStyle := Solid col\<rparr>\<rparr>)"
| "step (SetFillStyleGradient None stops) c = Inl TypeError"
| "step (SetFillStyleGradient (Some (p, q)) stops) c =
     (if \<exists>s \<in> set stops. snd s = None then Inl SyntaxError
      else Inr (c\<lparr>gs := (gs c)\<lparr>fillStyle :=
             LinearGradient p q (map (\<lambda>s. (fst s, the (snd s))) stops)\<rparr>\<rparr>))"
| "step (FillRect None) c = Inr c"
| "step (FillRect (Some (x, y, w, h))) c =
     (if w = 0 \<or> h = 0 then Inr c
      else Inr (c\<lparr>painted := painted c @
             [FilledRect (apply_xform (ctm (gs c)) (x, y)) (apply_xform (ctm (gs c)) (x + w, y + h))
                (paint_on_canvas (ctm (gs c)) (fillStyle (gs c)))
                (shadowBlur (gs c)) (shadowColor (gs c))]\<rparr>))"
| "step (SetStrokeStyle None) c = Inr c"
| "step (SetStrokeStyle (Some col)) c = Inr (c\<lparr>gs := (gs c)\<lparr>strokeStyle := Solid col\<rparr>\<rparr>)"
| "step (SetLineWidth w) c = Inr (c\<lparr>gs := (gs c)\<lparr>lineWidth := w\<rparr>\<rparr>)"
| "step BeginPath c = Inr (c\<lparr>path := []\<rparr>)"
| "step (MoveTo None) c = Inr c"
| "step (MoveTo (Some p)) c = Inr (c\<lparr>path := path c @ [([apply_xform (ctm (gs c)) p], False)]\<rparr>)"
| "step (LineTo None) c = Inr c"
| "step (LineTo (Some p)) c =
     (if path c = [] then Inr (c\<lparr>path := [([apply_xform (ctm (gs c)) p], False)]\<rparr>)
      else Inr (c\<lparr>path := butlast (path c) @
             [(fst (last (path c)) @ [apply_xform (ctm (gs c)) p], snd (last (path c)))]\<rparr>))"
| "step ClosePath c =
     (if path c = [] then Inr c
      else Inr (c\<lparr>path := butlast (path c) @
             [(fst (last (path c)), True), ([hd (fst (last (path c)))], False)]\<rparr>))"
| "step Stroke c =
     Inr (c\<lparr>painted := painted c @
            [StrokedPath (path c) (paint_on_canvas (ctm (gs c)) (strokeStyle (gs c)))
               (lineWidth (gs c)) (shadowBlur (gs c)) (shadowColor (gs c))]\<rparr>)"

text \<open>
  A draw method is the list of calls it makes, in order. A call that throws ends the
  method there: the later calls are not made, and the canvas keeps what was painted.
\<close>

fun exec :: "call list \<Rightarrow> ctx2d \<Rightarrow> ctx2d \<times> js_error option" where
  "exec [] c = (c, None)"
| "exec (k # ks) c = (case step k c of Inl e \<Rightarrow> (c, Some e) | Inr c' \<Rightarrow> exec ks c')"


text \<open>A fresh context: identity transformation, black styles, no shadow, nothing painted.\<close>

definition new_context :: ctx2d where
  "new_context =
     \<lparr>gs = \<lparr>ctm = identity, fillStyle = Solid (Rgba 0 0 0 1), strokeStyle = Solid (Rgba 0 0 0 1),
             lineWidth = 1, shadowBlur = 0, shadowColor = Rgba 0 0 0 0\<rparr>,
      stack = [], path = [], painted = []\<rparr>"

section \<open>Visualizer: the draw methods\<close>

text \<open>
  Reading element \<open>k\<close> of the \<^verbatim>\<open>Uint8Array\<close>: its value as a number, or undefined beyond
  its end (\<open>None\<close>, which arithmetic turns into NaN).
\<close>

definition typed_read :: "8 word list \<Rightarrow> nat \<Rightarrow> real option" where
  "typed_read arr k = (if k < length arr then Some (of_nat (unat (arr ! k))) else None)"

text \<open>Reading index \<open>k\<close> of the value returned by \<^verbatim>\<open>getColorScheme\<close>.\<close>

definition color_at :: "scheme_value \<Rightarrow> nat \<Rightarrow> color option" where
  "color_at colors k =
     (case colors of
        Colors cs \<Rightarrow> if k < length cs then Some (cs ! k) else None
      | Inherited name \<Rightarrow> None)"

text \<open>
  \<^verbatim>\<open>colors[Math.floor((i / barsToUse) * colors.length)]\<close>. An inherited member has no
  indexed elements, whatever its \<^verbatim>\<open>length\<close> is.
\<close>

definition color_by_index :: "scheme_value \<Rightarrow> nat \<Rightarrow> int \<Rightarrow> color option" where
  "color_by_index colors i n =
     (case colors of
        Colors cs \<Rightarrow> color_at colors (nat \<lfloor>real i / real_of_int n * real (length cs)\<rfloor>)
      | Inherited name \<Rightarrow> None)"

text \<open>\<^verbatim>\<open>colors[ring % colors.length]\<close>; the remainder by a zero length is NaN.\<close>

definition color_by_ring :: "scheme_value \<Rightarrow> nat \<Rightarrow> color option" where
  "color_by_ring colors ring =
     (case colors of
        Colors cs \<Rightarrow> if cs = [] then None else color_at colors (ring mod length cs)
      | Inherited name \<Rightarrow> None)"

definition barsToUse :: "visualizer \<Rightarrow> int" where
  "barsToUse v = min (barCount (settings v)) (int (bufferLength v))"

text \<open>\<^verbatim>\<open>Math.floor((i / barsToUse) * this.bufferLength)\<close>, inside a loop with \<open>i < barsToUse\<close>.\<close>

definition dataIndex :: "visualizer \<Rightarrow> nat \<Rightarrow> nat" where
  "dataIndex v i = nat \<lfloor>real i / real_of_int (barsToUse v) * real (bufferLength v)\<rfloor>"

text \<open>
  The bar layout of \<^verbatim>\<open>drawGradientBars\<close> and \<^verbatim>\<open>drawSolidBars\<close> (the same four lines in
  both): the width of a bar and the gap between two bars. With no bars to use the
  divisions are by zero and give non-finite numbers in JavaScript, which nothing reads
  because the loop over the bars does not run; the model has \<open>None\<close> there.
\<close>

definition totalGapSpace :: "visualizer \<Rightarrow> real" where
  "totalGapSpace v =
     (real_of_int (barsToUse v) - 1) * (real (canvas_width v) / real_of_int (barsToUse v)) * (2 / 10)"

definition availableSpace :: "visualizer \<Rightarrow> real" where
  "availableSpace v = real (canvas_width v) - totalGapSpace v"

definition barWidth :: "visualizer \<Rightarrow> real option" where
  "barWidth v =
     (if barsToUse v = 0 then None else Some (availableSpace v / real_of_int (barsToUse v)))"

definition gap :: "visualizer \<Rightarrow> real option" where
  "gap v =
     (if barsToUse v = 0 then None
      else Some ((real (canvas_width v) / real_of_int (barsToUse v)) * (2 / 10)))"

text \<open>
  \<^verbatim>\<open>this.dataArray ? (this.dataArray[dataIndex] * this.settings.sensitivity) : 10\<close>, the
  height of a bar.
\<close>

definition barHeight :: "visualizer \<Rightarrow> nat \<Rightarrow> real option" where
  "barHeight v k =
     (case dataArray v of
        None \<Rightarrow> Some 10
      | Some arr \<Rightarrow> map_option (\<lambda>sample. sample * sensitivity (settings v)) (typed_read arr k))"

definition getYPosition :: "visualizer \<Rightarrow> real \<Rightarrow> real" where
  "getYPosition v h =
     (if position (settings v) = ''top'' then h
      else if position (settings v) = ''center'' then real (canvas_height v) / 2 + h / 2
      else real (canvas_height v))"

definition drawBarRect :: "visualizer \<Rightarrow> real \<Rightarrow> real \<Rightarrow> real option \<Rightarrow> call" where
  "drawBarRect v x width height =
     FillRect (map_option
       (\<lambda>h. if position (settings v) = ''top'' then (x, 0, width, h)
            else if position (settings v) = ''center''
              then (x, (real (canvas_height v) - h) / 2, width, h)
            else (x, real (canvas_height v) - h, width, h)) height)"

text \<open>The glow set up before the bars: \<^verbatim>\<open>if (this.settings.glowIntensity > 0) { ... }\<close>.\<close>

definition glow :: "visualizer \<Rightarrow> color option \<Rightarrow> call list" where
  "glow v col =
     (if glowIntensity (settings v) > 0
      then [SetShadowBlur (glowIntensity (settings v)), SetShadowColor col]
      else [])"

text \<open>The body of the loop of \<^verbatim>\<open>drawBarsSet\<close> in \<^verbatim>\<open>drawGradientBars\<close>, for bar \<open>i\<close> at \<open>x\<close>.\<close>

definition gradient_bar :: "visualizer \<Rightarrow> scheme_value \<Rightarrow> real \<Rightarrow> nat \<Rightarrow> real \<Rightarrow> call list" where
  "gradient_bar v colors width i x =
     (let height = barHeight v (dataIndex v i)
      in [SetFillStyleGradient
            (map_option (\<lambda>h. ((0, getYPosition v h), (0, getYPosition v h - h))) height)
            [(0, color_at colors 0), (1 / 2, color_at colors 1), (1, color_at colors 2)],
          drawBarRect v x width height])"

text \<open>The body of the loop of \<^verbatim>\<open>drawBarsSet\<close> in \<^verbatim>\<open>drawSolidBars\<close>.\<close>

definition solid_bar :: "visualizer \<Rightarrow> scheme_value \<Rightarrow> real \<Rightarrow> nat \<Rightarrow> real \<Rightarrow> call list" where
  "solid_bar v colors width i x =
     (let height = barHeight v (dataIndex v i)
      in [SetFillStyle (color_by_index colors i (barsToUse v)),
          drawBarRect v x width height])"

text \<open>
  The loop \<^verbatim>\<open>for (let i = 0; i < barsToUse; i++) { ...; x += (barWidth + gap) * direction; }\<close>
  over the indices still to come, with the running \<open>x\<close>.
\<close>

fun bars_loop :: "(nat \<Rightarrow> real \<Rightarrow> call list) \<Rightarrow> real \<Rightarrow> real \<Rightarrow> nat list \<Rightarrow> call list" where
  "bars_loop body advance x [] = []"
| "bars_loop body advance x (i # rest) = body i x @ bars_loop body advance (x + advance) rest"

definition drawBarsSet ::
  "visualizer \<Rightarrow> (real \<Rightarrow> nat \<Rightarrow> real \<Rightarrow> call list) \<Rightarrow> real \<Rightarrow> real \<Rightarrow> call list" where
  "drawBarsSet v bar startX direction =
     (case (barWidth v, gap v) of
        (Some width, Some g) \<Rightarrow>
          bars_loop (bar width) ((width + g) * direction) startX [0..<nat (barsToUse v)]
      | _ \<Rightarrow> [])"

definition applyMirrorMode :: "visualizer \<Rightarrow> (real \<Rightarrow> real \<Rightarrow> call list) \<Rightarrow> call list" where
  "applyMirrorMode v drawFn =
     (if mirrorMode (settings v) = ''horizontal'' then
        [Save] @ drawFn (real (canvas_width v) / 2) 1
          @ [Scale (- 1) 1, Translate (- real (canvas_width v)) 0]
          @ drawFn (real (canvas_width v) / 2) 1 @ [Restore]
      else if mirrorMode (settings v) = ''vertical'' then
        drawFn 0 1
          @ [Save, Scale 1 (- 1), Translate 0 (- real (canvas_height v))]
          @ drawFn 0 1 @ [Restore]
      else drawFn 0 1)"

definition drawGradientBars :: "visualizer \<Rightarrow> scheme_value \<Rightarrow> call list" where
  "drawGradientBars v colors =
     glow v (color_at colors 0)
       @ applyMirrorMode v (drawBarsSet v (gradient_bar v colors))
       @ [SetShadowBlur 0]"

definition drawSolidBars :: "visualizer \<Rightarrow> scheme_value \<Rightarrow> call list" where
  "drawSolidBars v colors =
     glow v (color_at colors 0)
       @ applyMirrorMode v (drawBarsSet v (solid_bar v colors))
       @ [SetShadowBlur 0]"

text \<open>
  \<^verbatim>\<open>drawCircularBars\<close>: one radial line per bar. The amplitude is
  \<^verbatim>\<open>this.dataArray ? this.dataArray[dataIndex] : 0\<close>.
\<close>

definition circle_amplitude :: "visualizer \<Rightarrow> nat \<Rightarrow> real option" where
  "circle_amplitude v k = (case dataArray v of None \<Rightarrow> Some 0 | Some arr \<Rightarrow> typed_read arr k)"

definition circular_bar :: "visualizer \<Rightarrow> scheme_value \<Rightarrow> nat \<Rightarrow> call list" where
  "circular_bar v colors i =
     (let centerX = real (canvas_width v) / 2;
          centerY = real (canvas_height v) / 2;
          radius = min centerX centerY - 50;
          angle = real i / real_of_int (barsToUse v) * pi * 2;
          height = map_option (\<lambda>a. a * sensitivity (settings v) * (1 / 2))
                     (circle_amplitude v (dataIndex v i))
      in [SetStrokeStyle (color_by_index colors i (barsToUse v)),
          SetLineWidth 3,
          BeginPath,
          MoveTo (Some (centerX + cos angle * radius, centerY + sin angle * radius)),
          LineTo (map_option
            (\<lambda>h. (centerX + cos angle * (radius + h), centerY + sin angle * (radius + h)))
            height),
          Stroke])"

definition drawCircularBars :: "visualizer \<Rightarrow> scheme_value \<Rightarrow> call list" where
  "drawCircularBars v colors =
     glow v (color_at colors 0)
       @ concat (map (circular_bar v colors) [0..<nat (barsToUse v)])
       @ [SetShadowBlur 0]"

text \<open>
  \<^verbatim>\<open>drawWaveForm\<close>: one vertex per element of the spectrum. The sample is
  \<^verbatim>\<open>this.dataArray ? (this.dataArray[i] / 255.0) : 0.5\<close>. The slice width divides by
  \<open>bufferLength\<close> and is read only inside the loop, which runs \<open>bufferLength\<close> times.
\<close>

definition wave_sample :: "visualizer \<Rightarrow> nat \<Rightarrow> real option" where
  "wave_sample v i =
     (case dataArray v of
        None \<Rightarrow> Some (1 / 2)
      | Some arr \<Rightarrow> map_option (\<lambda>sample. sample / 255) (typed_read arr i))"

definition wave_yOffset :: "visualizer \<Rightarrow> real" where
  "wave_yOffset v =
     (if position (settings v) = ''top'' then - real (canvas_height v) / 4
      else if position (settings v) = ''bottom'' then real (canvas_height v) / 4
      else 0)"

definition wave_vertex :: "visualizer \<Rightarrow> nat \<Rightarrow> real \<Rightarrow> call" where
  "wave_vertex v i x =
     (let vertex = map_option
            (\<lambda>s. (x, real (canvas_height v) / 2 + wave_yOffset v
                      + s * real (canvas_height v) / 3 * sensitivity (settings v)
                      - real (canvas_height v) / 6))
            (wave_sample v i)
      in if i = 0 then MoveTo vertex else LineTo vertex)"

definition drawWaveForm :: "visualizer \<Rightarrow> scheme_value \<Rightarrow> call list" where
  "drawWaveForm v colors =
     glow v (color_at colors 1)
       @ [SetLineWidth 3, SetStrokeStyle (color_at colors 1), BeginPath]
       @ (if bufferLength v = 0 then []
          else bars_loop (\<lambda>i x. [wave_vertex v i x])
                 (real (canvas_width v) / real (bufferLength v)) 0 [0..<bufferLength v])
       @ [Stroke, SetShadowBlur 0]"

text \<open>
  \<^verbatim>\<open>drawSpectrum\<close>: three closed rings. The amplitude is
  \<^verbatim>\<open>this.dataArray ? (this.dataArray[dataIndex] * this.settings.sensitivity * 0.3) : 0\<close>.
\<close>

definition spectrum_amplitude :: "visualizer \<Rightarrow> nat \<Rightarrow> real option" where
  "spectrum_amplitude v k =
     (case dataArray v of
        None \<Rightarrow> Some 0
      | Some arr \<Rightarrow>
          map_option (\<lambda>sample. sample * sensitivity (settings v) * (3 / 10)) (typed_read arr k))"

definition ring_vertex :: "visualizer \<Rightarrow> nat \<Rightarrow> nat \<Rightarrow> call" where
  "ring_vertex v ring i =
     (let centerX = real (canvas_width v) / 2;
          centerY = real (canvas_height v) / 2;
          maxRadius = min centerX centerY - 20;
          ringRadius = maxRadius * (3 / 10 + real ring * (25 / 100));
          angle = real i / real_of_int (barsToUse v) * pi * 2;
          vertex = map_option
            (\<lambda>a. (centerX + cos angle * (ringRadius + a * (real ring + 1) * (1 / 2)),
                  centerY + sin angle * (ringRadius + a * (real ring + 1) * (1 / 2))))
            (spectrum_amplitude v (dataIndex v i))
      in if i = 0 then MoveTo vertex else LineTo vertex)"

definition spectrum_ring :: "visualizer \<Rightarrow> scheme_value \<Rightarrow> nat \<Rightarrow> call list" where
  "spectrum_ring v colors ring =
     [BeginPath]
       @ map (ring_vertex v ring) [0..<nat (barsToUse v)]
       @ [ClosePath, SetStrokeStyle (color_by_ring colors ring), SetLineWidth 2, Stroke]"

definition drawSpectrum :: "visualizer \<Rightarrow> scheme_value \<Rightarrow> call list" where
  "drawSpectrum v colors =
     glow v (color_at colors 0)
       @ concat (map (spectrum_ring v colors) [0..<3])
       @ [SetShadowBlur 0]"

text \<open>
  The visualizer part of \<^verbatim>\<open>draw()\<close>: the scheme is computed once, then the \<^verbatim>\<open>switch\<close> on the
  bar style; a style that is none of the five draws nothing.
\<close>

definition draw_visualizer :: "visualizer \<Rightarrow> call list" where
  "draw_visualizer v =
     (let colors = getColorScheme v
      in if barStyle (settings v) = ''gradient'' then drawGradientBars v colors
         else if barStyle (settings v) = ''solid'' then drawSolidBars v colors
         else if barStyle (settings v) = ''circle'' then drawCircularBars v colors
         else if barStyle (settings v) = ''wave'' then drawWaveForm v colors
         else if barStyle (settings v) = ''spectrum'' then drawSpectrum v colors
         else [])"


section \<open>Geometry of what is painted\<close>





text \<open>A call that cannot throw: every call but a gradient with a NaN coordinate or an undefined colour.\<close>

fun safe_call :: "call \<Rightarrow> bool" where
  "safe_call (SetFillStyleGradient g stops) = (g \<noteq> None \<and> list_all (\<lambda>s. snd s \<noteq> None) stops)"
| "safe_call k = True"




section \<open>Properties of the capture controller\<close>



















text \<open>
  A start request whose awaits settle before any other task runs: the three parts, one
  after the other, are the whole handler.
\<close>

lemma handleStart_parts:
  assumes "awaitingResume a = 0" and "awaitingPlay a = 0"
  shows "run [StartBegin host, ResumeSettled host, PlaySettled host] a = fst (handleStart host a)"
proof (cases "appState a = Idle")
  case False
  with assms show ?thesis
    by (simp add: startBegin_def resumeSettled_def playSettled_def handleStart_def)
next
  case True
  show ?thesis
  proof (cases host)
    case None
    with True assms show ?thesis
      by (simp add: startBegin_def resumeSettled_def playSettled_def handleStart_def)
  next
    case (Some f)
    with True assms show ?thesis
      by (cases f)
        (simp_all add: startBegin_def resumeSettled_def playSettled_def handleStart_def
          start_catch_def)
  qed
qed








text \<open>
  Claim C8. A start request in a state other than idle, a pause request in a state
  other than recording, a resume request in a state other than paused and a stop
  request in state idle each return without an error and leave every variable (the
  state, the clip counter, the fragment list and all the rest) as it was.
\<close>

theorem out_of_state_requests_ignored:
  "(appState a \<noteq> Idle \<longrightarrow> handleStart host a = (a, None))
   \<and> (appState a \<noteq> Recording \<longrightarrow> handlePause a = (a, None))
   \<and> (appState a \<noteq> Paused \<longrightarrow> handleResume a = (a, None))
   \<and> (appState a = Idle \<longrightarrow> handleStop a = (a, None))"
  by (simp add: handleStart_def handlePause_def handleResume_def handleStop_def)

theorem out_of_state_requests_ignored_witness:
  "appState initial = Idle
   \<and> handlePause initial = (initial, None)
   \<and> handleResume initial = (initial, None)
   \<and> handleStop initial = (initial, None)
   \<and> appState (run [Start None] initial) = Recording
   \<and> handleStart None (run [Start None] initial) = (run [Start None] initial, None)
   \<and> handleResume (run [Start None] initial) = (run [Start None] initial, None)"
  using out_of_state_requests_ignored [of initial None]
    out_of_state_requests_ignored [of "run [Start None] initial" None]
  by (simp add: initial_def handleStart_def)

text \<open>
  Claim C3, evaluated on the code. A start request in the initial state that the host
  rejects (at any of the five steps) is caught inside the handler: nothing is raised,
  the status line shows the error, the state is idle again and the fragment list is
  untouched, but the clip counter stays at 1 instead of returning to 0. The first clip
  recorded after a rejected start is therefore numbered 2.
\<close>

theorem rejected_start_keeps_counter:
  "(\<forall>f. appState (fst (handleStart (Some f) initial)) = Idle
       \<and> snd (handleStart (Some f) initial) = None
       \<and> statusMessage (fst (handleStart (Some f) initial)) = StatusErrorStarting
       \<and> recordedChunks (fst (handleStart (Some f) initial)) = recordedChunks initial
       \<and> clipCounter initial = 0
       \<and> clipCounter (fst (handleStart (Some f) initial)) = 1)
   \<and> map clip (downloads
        (run [Start (Some PlayRejected), Start None, Stop, SinkFinalize d] initial)) = [2]"
proof -
  have "appState (fst (handleStart (Some f) initial)) = Idle
       \<and> snd (handleStart (Some f) initial) = None
       \<and> statusMessage (fst (handleStart (Some f) initial)) = StatusErrorStarting
       \<and> recordedChunks (fst (handleStart (Some f) initial)) = recordedChunks initial
       \<and> clipCounter initial = 0
       \<and> clipCounter (fst (handleStart (Some f) initial)) = 1" for f
    by (cases f) (simp_all add: handleStart_def start_catch_def initial_def)
  moreover have "map clip (downloads
        (run [Start (Some PlayRejected), Start None, Stop, SinkFinalize d] initial)) = [2]"
    by (simp add: handleStart_def handleStop_def sinkFinalize_def onstop_def
        ondataavailable_def recorder_stop_def start_catch_def initial_def Let_def)
  ultimately show ?thesis by blast
qed

section \<open>Properties of the frame scheduler\<close>

lemma loop_decision:
  "fst (loop ts p v) = (targetFrameInterval v \<le> ts - lastFrameTime v)"
  by (auto simp: loop_def Let_def)

lemma loop_lastFrameTime:
  "lastFrameTime (snd (loop ts p v)) =
     (if targetFrameInterval v \<le> ts - lastFrameTime v then ts else lastFrameTime v)"
  by (auto simp: loop_def Let_def)

lemma loop_targetFrameInterval:
  "targetFrameInterval (snd (loop ts p v)) = targetFrameInterval v"
  by (auto simp: loop_def Let_def)


text \<open>
  \<^verbatim>\<open>parseInt\<close> gives back an integer written with all its digits, and reads the
  single leading digit of \<open>10\<^sup>2\<^sup>1\<close>.
\<close>

lemma parseInt_small: "\<bar>n\<bar> < 10 ^ 21 \<Longrightarrow> parseInt n = n"
  by (simp add: parseInt_def)

lemma parseInt_60: "parseInt 60 = 60"
  by (simp add: parseInt_def)

lemma leading_digit_power: "leading_digit (10 ^ k) = 1"
proof (induction k)
  case 0
  show ?case by (simp add: leading_digit.simps)
next
  case (Suc k)
  have "\<not> (10::nat) ^ Suc k < 10" by simp
  then have "leading_digit (10 ^ Suc k) = leading_digit (10 ^ Suc k div 10)"
    by (subst leading_digit.simps) (simp only: if_False)
  with Suc show ?case by simp
qed

lemma parseInt_1e21: "parseInt (10 ^ 21) = 1"
proof -
  have "nat \<bar>10 ^ 21 :: int\<bar> = 10 ^ 21" by simp
  then show ?thesis
    unfolding parseInt_def using leading_digit_power [of 21] by simp
qed

lemma updateSettings_targetFrameInterval:
  "targetFrameInterval (updateSettings u v) =
     (if truthy_int (new_frameRate u) then 1000 / of_int (parseInt (the (new_frameRate u)))
      else targetFrameInterval v)"
  by (auto simp: updateSettings_def updateCanvasSize_def Let_def)

lemma updateSettings_lastFrameTime:
  "lastFrameTime (updateSettings u v) = lastFrameTime v"
  by (auto simp: updateSettings_def updateCanvasSize_def Let_def)

lemma updateSettings_frameRate_only:
  "updateSettings (no_update\<lparr>new_frameRate := Some 60\<rparr>) v
     = v\<lparr>settings := (settings v)\<lparr>frameRate := 60\<rparr>, targetFrameInterval := 1000 / 60\<rparr>"
  by (simp add: updateSettings_def merge_settings_def no_update_def truthy_int_def truthy_nat_def
      Let_def parseInt_60)

lemma after_ticks_30:
  "lastFrameTime (after_ticks [0, 10, 20, 40] p (new_visualizer w h)) = 40
   \<and> targetFrameInterval (after_ticks [0, 10, 20, 40] p (new_visualizer w h)) = 1000 / 30"
  by (simp add: loop_lastFrameTime loop_targetFrameInterval) (simp add: new_visualizer_def)

text \<open>
  Claim C2 as stated fails at its first decision: a new visualizer has frame rate 30,
  interval 1000/30 and \<open>lastFrameTime\<close> 0, and the callback at timestamp 0 finds
  0 - 0 below the interval and computes no frame.
\<close>

theorem frame_gate_first_tick_counterexample:
  "frameRate (settings (new_visualizer 1280 720)) = 30
   \<and> targetFrameInterval (new_visualizer 1280 720) = 1000 / 30
   \<and> lastFrameTime (new_visualizer 1280 720) = 0
   \<and> \<not> (ticks [0, 10, 20, 40] [] (new_visualizer 1280 720) = [True, False, False, True])"
  by (simp add: loop_decision loop_lastFrameTime loop_targetFrameInterval)
    (simp add: new_visualizer_def)

text \<open>
  Claim C2, amended. With frame rate 30 and \<open>lastFrameTime\<close> 0 the timestamps 0, 10, 20,
  40 give the decisions false, false, false, true. In every state a frame is computed
  exactly when the timestamp minus \<open>lastFrameTime\<close> is at least the interval;
  \<open>lastFrameTime\<close> then becomes the timestamp and is otherwise kept, and the interval is
  never changed by a callback. Setting the frame rate to 60 replaces the interval by
  1000/60 and the frame rate in the settings and changes nothing else, \<open>lastFrameTime\<close>
  included, so that only the threshold of the later callbacks changes: after the four callbacks above, timestamps 50 and 57 give false and true,
  where the old interval gives false and false.
\<close>

theorem frame_gate_decisions:
  "ticks [0, 10, 20, 40] p (new_visualizer w h) = [False, False, False, True]
   \<and> fst (loop ts p v) = (targetFrameInterval v \<le> ts - lastFrameTime v)
   \<and> lastFrameTime (snd (loop ts p v)) =
       (if targetFrameInterval v \<le> ts - lastFrameTime v then ts else lastFrameTime v)
   \<and> targetFrameInterval (snd (loop ts p v)) = targetFrameInterval v
   \<and> targetFrameInterval (updateSettings (no_update\<lparr>new_frameRate := Some 60\<rparr>) v) = 1000 / 60
   \<and> lastFrameTime (updateSettings (no_update\<lparr>new_frameRate := Some 60\<rparr>) v) = lastFrameTime v
   \<and> updateSettings (no_update\<lparr>new_frameRate := Some 60\<rparr>) v
       = v\<lparr>settings := (settings v)\<lparr>frameRate := 60\<rparr>, targetFrameInterval := 1000 / 60\<rparr>
   \<and> fst (loop ts p (updateSettings (no_update\<lparr>new_frameRate := Some 60\<rparr>) v))
       = (1000 / 60 \<le> ts - lastFrameTime v)
   \<and> ticks [50, 57] p (updateSettings (no_update\<lparr>new_frameRate := Some 60\<rparr>)
         (after_ticks [0, 10, 20, 40] p (new_visualizer w h))) = [False, True]
   \<and> ticks [50, 57] p (after_ticks [0, 10, 20, 40] p (new_visualizer w h)) = [False, False]"
proof -
  let ?u = "no_update\<lparr>new_frameRate := Some 60\<rparr>"
  let ?v4 = "after_ticks [0, 10, 20, 40] p (new_visualizer w h)"
  have frame_rate: "truthy_int (new_frameRate ?u)" "the (new_frameRate ?u) = 60"
    by (simp_all add: truthy_int_def)
  have t30: "ticks [0, 10, 20, 40] p (new_visualizer w h) = [False, False, False, True]"
    by (simp add: loop_decision loop_lastFrameTime loop_targetFrameInterval)
      (simp add: new_visualizer_def)
  have i60: "targetFrameInterval (updateSettings ?u v) = 1000 / 60" for v
    unfolding updateSettings_targetFrameInterval using frame_rate by (simp add: parseInt_60)
  have d60: "fst (loop ts p (updateSettings ?u v)) = (1000 / 60 \<le> ts - lastFrameTime v)"
    unfolding loop_decision i60 updateSettings_lastFrameTime by simp
  have t60: "ticks [50, 57] p (updateSettings ?u ?v4) = [False, True]"
    using after_ticks_30 [of p w h]
    by (simp add: loop_decision loop_lastFrameTime loop_targetFrameInterval i60
        updateSettings_lastFrameTime del: after_ticks.simps)
  have t30': "ticks [50, 57] p ?v4 = [False, False]"
    using after_ticks_30 [of p w h]
    by (simp add: loop_decision loop_lastFrameTime loop_targetFrameInterval
        del: after_ticks.simps)
  show ?thesis
    by (intro conjI t30 loop_decision loop_lastFrameTime loop_targetFrameInterval i60
        updateSettings_lastFrameTime updateSettings_frameRate_only d60 t60 t30')
qed

text \<open>
  Claim C9 as stated fails for a frame rate of \<open>10\<^sup>2\<^sup>1\<close>: the update divides 1000 by
  \<^verbatim>\<open>parseInt\<close> of the frame rate, which reads the 1 of \<^verbatim>\<open>1e+21\<close>, and the interval
  becomes 1000 instead of 1000 divided by the frame rate.
\<close>

theorem updateSettings_frameRate_counterexample:
  "new_frameRate (no_update\<lparr>new_frameRate := Some (10 ^ 21)\<rparr>) = Some (10 ^ 21)
   \<and> targetFrameInterval (updateSettings (no_update\<lparr>new_frameRate := Some (10 ^ 21)\<rparr>)
        (new_visualizer 1280 720)) = 1000
   \<and> \<not> (targetFrameInterval (updateSettings (no_update\<lparr>new_frameRate := Some (10 ^ 21)\<rparr>)
        (new_visualizer 1280 720)) = 1000 / of_int (10 ^ 21))"
proof -
  have given: "new_frameRate (no_update\<lparr>new_frameRate := Some (10 ^ 21)\<rparr>) = Some (10 ^ 21)"
    by simp
  have interval: "targetFrameInterval (updateSettings (no_update\<lparr>new_frameRate := Some (10 ^ 21)\<rparr>)
        (new_visualizer 1280 720)) = 1000"
    unfolding updateSettings_targetFrameInterval given
    using parseInt_1e21 by (simp add: truthy_int_def)
  show ?thesis
    unfolding interval using given by simp
qed

text \<open>
  Claim C9, amended. A settings update that carries a frame rate that is a non-zero
  integer below \<open>10\<^sup>2\<^sup>1\<close> in absolute value (the settings record documents it as
  positive) sets the interval to 1000 divided by it; an update without a frame rate, or
  with the frame rate 0, leaves the interval as it was; two updates that agree on the
  frame rate give the same interval, whatever other fields they carry; and no update
  changes \<open>lastFrameTime\<close>.
\<close>

theorem updateSettings_scheduling:
  "(new_frameRate u = Some fr \<and> fr \<noteq> 0 \<and> \<bar>fr\<bar> < 10 ^ 21
      \<longrightarrow> targetFrameInterval (updateSettings u v) = 1000 / of_int fr)
   \<and> (new_frameRate u = None \<or> new_frameRate u = Some 0
      \<longrightarrow> targetFrameInterval (updateSettings u v) = targetFrameInterval v)
   \<and> (new_frameRate u = new_frameRate u'
      \<longrightarrow> targetFrameInterval (updateSettings u v) = targetFrameInterval (updateSettings u' v))
   \<and> lastFrameTime (updateSettings u v) = lastFrameTime v"
proof -
  have given: "new_frameRate u = Some fr \<and> fr \<noteq> 0 \<and> \<bar>fr\<bar> < 10 ^ 21
      \<longrightarrow> targetFrameInterval (updateSettings u v) = 1000 / of_int fr"
    by (simp add: updateSettings_targetFrameInterval truthy_int_def parseInt_small)
  have absent: "new_frameRate u = None \<or> new_frameRate u = Some 0
      \<longrightarrow> targetFrameInterval (updateSettings u v) = targetFrameInterval v"
    by (auto simp: updateSettings_targetFrameInterval truthy_int_def)
  have others: "new_frameRate u = new_frameRate u'
      \<longrightarrow> targetFrameInterval (updateSettings u v) = targetFrameInterval (updateSettings u' v)"
    by (simp add: updateSettings_targetFrameInterval)
  show ?thesis
    by (intro conjI given absent others updateSettings_lastFrameTime)
qed

theorem updateSettings_scheduling_witness:
  "new_frameRate (no_update\<lparr>new_frameRate := Some 60\<rparr>) = Some 60
   \<and> (60 :: int) \<noteq> 0 \<and> \<bar>60 :: int\<bar> < 10 ^ 21
   \<and> targetFrameInterval (updateSettings (no_update\<lparr>new_frameRate := Some 60\<rparr>)
      (new_visualizer 1280 720)) = 1000 / 60
   \<and> new_frameRate
        (no_update\<lparr>new_barCount := Some 128, new_width := Some 1920, new_height := Some 1080\<rparr>)
       = None
   \<and> targetFrameInterval (updateSettings
        (no_update\<lparr>new_barCount := Some 128, new_width := Some 1920, new_height := Some 1080\<rparr>)
        (new_visualizer 1280 720)) = 1000 / 30
   \<and> targetFrameInterval (updateSettings
        (no_update\<lparr>new_frameRate := Some 60, new_colorTheme := Some ''fire''\<rparr>)
        (new_visualizer 1280 720)) = 1000 / 60
   \<and> lastFrameTime (updateSettings (no_update\<lparr>new_frameRate := Some 60\<rparr>)
        (new_visualizer 1280 720)) = 0"
proof -
  let ?u = "no_update\<lparr>new_frameRate := Some 60\<rparr>"
  let ?u' = "no_update\<lparr>new_frameRate := Some 60, new_colorTheme := Some ''fire''\<rparr>"
  let ?w = "no_update\<lparr>new_barCount := Some 128, new_width := Some 1920, new_height := Some 1080\<rparr>"
  let ?v = "new_visualizer 1280 720"
  have given: "new_frameRate ?u = Some 60 \<and> (60 :: int) \<noteq> 0 \<and> \<bar>60 :: int\<bar> < 10 ^ 21"
    by simp
  have absent: "new_frameRate ?w = None"
    by (simp add: no_update_def)
  have same: "new_frameRate ?u' = new_frameRate ?u"
    by simp
  note t1 = updateSettings_scheduling [where u = ?u and fr = 60 and v = ?v and u' = ?u]
  note t2 = updateSettings_scheduling [where u = ?w and fr = 60 and v = ?v and u' = ?w]
  note t3 = updateSettings_scheduling [where u = ?u' and fr = 60 and v = ?v and u' = ?u]
  have i60: "targetFrameInterval (updateSettings ?u ?v) = 1000 / 60"
    using t1 [THEN conjunct1, THEN mp, OF given] by simp
  have i30: "targetFrameInterval (updateSettings ?w ?v) = 1000 / 30"
    using t2 [THEN conjunct2, THEN conjunct1, THEN mp, OF disjI1, OF absent]
    by (simp add: new_visualizer_def)
  have i60': "targetFrameInterval (updateSettings ?u' ?v) = 1000 / 60"
    using t3 [THEN conjunct2, THEN conjunct2, THEN conjunct1, THEN mp, OF same] i60 by simp
  have last: "lastFrameTime (updateSettings ?u ?v) = 0"
    using t1 [THEN conjunct2, THEN conjunct2, THEN conjunct2] by (simp add: new_visualizer_def)
  show ?thesis
    by (intro conjI given [THEN conjunct1] given [THEN conjunct2, THEN conjunct1]
        given [THEN conjunct2, THEN conjunct2] i60 absent i30 i60' last)
qed

section \<open>Properties of the colour schemes\<close>







section \<open>Properties of the draw methods\<close>

subsection \<open>Calls that cannot throw\<close>


lemma step_safe: "safe_call k \<Longrightarrow> \<exists>c'. step k c = Inr c'"
  by (cases "(k, c)" rule: step.cases) (auto simp: list_all_iff split: list.splits)

lemma exec_safe: "list_all safe_call ks \<Longrightarrow> snd (exec ks c) = None"
proof (induction ks arbitrary: c)
  case Nil
  show ?case by simp
next
  case (Cons k ks)
  then obtain c' where "step k c = Inr c'" using step_safe [of k c] by auto
  with Cons show ?case by simp
qed

lemma barsToUse_no_buffer: "bufferLength v = 0 \<Longrightarrow> nat (barsToUse v) = 0"
  by (simp add: barsToUse_def)

lemma drawBarsSet_empty: "bufferLength v = 0 \<Longrightarrow> drawBarsSet v bar x d = []"
  by (simp add: drawBarsSet_def barsToUse_no_buffer split: option.splits)

lemma safe_glow: "list_all safe_call (glow v col)"
  by (simp add: glow_def)

lemma safe_mirror:
  "(\<And>x d. list_all safe_call (drawFn x d)) \<Longrightarrow> list_all safe_call (applyMirrorMode v drawFn)"
  by (simp add: applyMirrorMode_def)

lemma safe_solid_loop: "list_all safe_call (bars_loop (solid_bar v colors w) adv x is)"
  by (induction "is" arbitrary: x) (simp_all add: solid_bar_def drawBarRect_def Let_def)

lemma safe_gradient_loop:
  assumes "length cs = 3" "\<forall>i \<in> set is. barHeight v (dataIndex v i) \<noteq> None"
  shows "list_all safe_call (bars_loop (gradient_bar v (Colors cs) w) adv x is)"
  using assms(2)
proof (induction "is" arbitrary: x)
  case Nil
  show ?case by simp
next
  case (Cons i rest)
  then show ?case
    using assms(1) by (auto simp: gradient_bar_def drawBarRect_def Let_def color_at_def)
qed

lemma dataIndex_bound:
  assumes "i < nat (barsToUse v)"
  shows "dataIndex v i < bufferLength v"
proof -
  let ?n = "barsToUse v"
  let ?L = "bufferLength v"
  from assms have n_pos: "0 < ?n" and i_lt: "int i < ?n" by simp_all
  have n_le: "?n \<le> int ?L" by (simp add: barsToUse_def)
  with n_pos have L_pos: "0 < ?L" by simp
  have "real i / real_of_int ?n < 1" using n_pos i_lt by simp
  then have "real i / real_of_int ?n * real ?L < 1 * real ?L"
    using L_pos by (intro mult_strict_right_mono) simp_all
  then have "\<lfloor>real i / real_of_int ?n * real ?L\<rfloor> < int ?L"
    by (simp add: floor_less_iff)
  then show ?thesis using L_pos by (simp add: dataIndex_def)
qed

lemma barHeight_defined:
  assumes "\<forall>arr. dataArray v = Some arr \<longrightarrow> bufferLength v \<le> length arr"
    and "i < nat (barsToUse v)"
  shows "barHeight v (dataIndex v i) \<noteq> None"
proof (cases "dataArray v")
  case None
  then show ?thesis by (simp add: barHeight_def)
next
  case (Some arr)
  with assms(1) dataIndex_bound [OF assms(2)] have "dataIndex v i < length arr" by simp
  with Some show ?thesis by (simp add: barHeight_def typed_read_def)
qed

lemma bars_safe:
  assumes "length cs = 3"
    and "\<forall>arr. dataArray v = Some arr \<longrightarrow> bufferLength v \<le> length arr"
    and "drawFn = drawBarsSet v (gradient_bar v (Colors cs))
       \<or> drawFn = drawBarsSet v (solid_bar v (Colors cs))"
  shows "list_all safe_call (drawFn x d)"
proof -
  have "\<forall>i \<in> set [0..<nat (barsToUse v)]. barHeight v (dataIndex v i) \<noteq> None"
    using barHeight_defined [OF assms(2)] by simp
  from safe_gradient_loop [OF assms(1) this] safe_solid_loop assms(3)
  show ?thesis by (auto simp: drawBarsSet_def split: option.splits)
qed

lemma safe_drawSolidBars: "list_all safe_call (drawSolidBars v colors)"
  by (simp add: drawSolidBars_def safe_glow safe_mirror drawBarsSet_def safe_solid_loop
      split: option.splits)

lemma safe_drawCircularBars: "list_all safe_call (drawCircularBars v colors)"
  using safe_glow [of v "color_at colors 0"]
  by (auto simp: drawCircularBars_def circular_bar_def Let_def list_all_iff)

lemma safe_wave_loop: "list_all safe_call (bars_loop (\<lambda>i x. [wave_vertex v i x]) adv x is)"
  by (induction "is" arbitrary: x) (simp_all add: wave_vertex_def Let_def)

lemma safe_drawWaveForm: "list_all safe_call (drawWaveForm v colors)"
  by (simp add: drawWaveForm_def safe_glow safe_wave_loop)

lemma safe_drawSpectrum: "list_all safe_call (drawSpectrum v colors)"
  using safe_glow [of v "color_at colors 0"]
  by (auto simp: drawSpectrum_def spectrum_ring_def ring_vertex_def Let_def list_all_iff)

lemma safe_drawGradientBars_empty:
  "bufferLength v = 0 \<Longrightarrow> list_all safe_call (drawGradientBars v colors)"
  by (simp add: drawGradientBars_def applyMirrorMode_def drawBarsSet_empty safe_glow)

lemma safe_drawGradientBars:
  assumes "length cs = 3"
    and "\<forall>arr. dataArray v = Some arr \<longrightarrow> bufferLength v \<le> length arr"
  shows "list_all safe_call (drawGradientBars v (Colors cs))"
proof -
  have "list_all safe_call (drawBarsSet v (gradient_bar v (Colors cs)) x d)" for x d
    by (rule bars_safe [OF assms]) simp
  then show ?thesis by (simp add: drawGradientBars_def safe_glow safe_mirror)
qed

text \<open>
  Claim C6. With no analyser attached (\<open>dataArray\<close> null, \<open>bufferLength\<close> 0) each of the
  five draw methods, and the dispatch on the bar style, runs to its end without an
  error, from every context and for every value of the colour scheme. Every spectrum
  read is guarded by the test on \<open>dataArray\<close> and yields the constant of its method: bar
  height 10, circle amplitude 0, wave sample 0.5, ring amplitude 0. The gradient method
  completes with a null \<open>dataArray\<close> also for a non-zero \<open>bufferLength\<close> when the scheme has
  its three colours.
\<close>

theorem no_analyser_draw_completes:
  assumes "dataArray v = None" and "bufferLength v = 0"
  shows "snd (exec (drawGradientBars v colors) c) = None
    \<and> snd (exec (drawSolidBars v colors) c) = None
    \<and> snd (exec (drawCircularBars v colors) c) = None
    \<and> snd (exec (drawWaveForm v colors) c) = None
    \<and> snd (exec (drawSpectrum v colors) c) = None
    \<and> snd (exec (draw_visualizer v) c) = None
    \<and> barHeight v k = Some 10
    \<and> circle_amplitude v k = Some 0
    \<and> wave_sample v k = Some (1 / 2)
    \<and> spectrum_amplitude v k = Some 0
    \<and> (length cs = 3 \<longrightarrow>
         snd (exec (drawGradientBars (v\<lparr>bufferLength := n\<rparr>) (Colors cs)) c) = None)"
proof -
  have g: "snd (exec (drawGradientBars v cols) c) = None" for cols
    by (rule exec_safe [OF safe_drawGradientBars_empty [OF assms(2)]])
  have s: "snd (exec (drawSolidBars v cols) c) = None" for cols
    by (rule exec_safe [OF safe_drawSolidBars])
  have ci: "snd (exec (drawCircularBars v cols) c) = None" for cols
    by (rule exec_safe [OF safe_drawCircularBars])
  have w: "snd (exec (drawWaveForm v cols) c) = None" for cols
    by (rule exec_safe [OF safe_drawWaveForm])
  have sp: "snd (exec (drawSpectrum v cols) c) = None" for cols
    by (rule exec_safe [OF safe_drawSpectrum])
  have d: "snd (exec (draw_visualizer v) c) = None"
    by (simp add: draw_visualizer_def Let_def g s ci w sp)
  have fallback: "barHeight v k = Some 10" "circle_amplitude v k = Some 0"
    "wave_sample v k = Some (1 / 2)" "spectrum_amplitude v k = Some 0"
    using assms(1)
    by (simp_all add: barHeight_def circle_amplitude_def wave_sample_def spectrum_amplitude_def)
  have any_length: "length cs = 3 \<longrightarrow>
         snd (exec (drawGradientBars (v\<lparr>bufferLength := n\<rparr>) (Colors cs)) c) = None"
  proof
    assume three: "length cs = 3"
    have "\<forall>arr. dataArray (v\<lparr>bufferLength := n\<rparr>) = Some arr
        \<longrightarrow> bufferLength (v\<lparr>bufferLength := n\<rparr>) \<le> length arr"
      using assms(1) by simp
    from exec_safe [OF safe_drawGradientBars [OF three this]]
    show "snd (exec (drawGradientBars (v\<lparr>bufferLength := n\<rparr>) (Colors cs)) c) = None" .
  qed
  show ?thesis
    by (intro conjI g s ci w sp d fallback any_length)
qed

theorem no_analyser_draw_completes_witness:
  "dataArray (new_visualizer 1280 720) = None
   \<and> bufferLength (new_visualizer 1280 720) = 0
   \<and> snd (exec (drawGradientBars (new_visualizer 1280 720) (Colors default_scheme)) new_context) = None
   \<and> snd (exec (drawWaveForm (new_visualizer 1280 720) (Colors default_scheme)) new_context) = None
   \<and> snd (exec (draw_visualizer (new_visualizer 1280 720)) new_context) = None
   \<and> barHeight (new_visualizer 1280 720) 7 = Some 10"
proof -
  have null: "dataArray (new_visualizer 1280 720) = None"
    and empty: "bufferLength (new_visualizer 1280 720) = 0"
    by (simp_all add: new_visualizer_def)
  from no_analyser_draw_completes [OF null empty, of "Colors default_scheme" new_context 7]
    null empty
  show ?thesis by simp
qed

subsection \<open>The bar layout\<close>

lemma bars_loop_shifted:
  "bars_loop body adv x (map (\<lambda>j. k + j) [0..<m])
     = concat (map (\<lambda>j. body (k + j) (x + real j * adv)) [0..<m])"
proof (induction m arbitrary: k x)
  case 0
  show ?case by simp
next
  case (Suc m)
  have split: "[0..<Suc m] = 0 # map Suc [0..<m]"
    by (simp add: upt_conv_Cons map_Suc_upt del: upt_Suc)
  have "bars_loop body adv x (map (\<lambda>j. k + j) [0..<Suc m])
      = body k x @ bars_loop body adv (x + adv) (map (\<lambda>j. Suc k + j) [0..<m])"
    unfolding split by (simp add: comp_def)
  also have "\<dots> = body k x @ concat (map (\<lambda>j. body (Suc k + j) (x + adv + real j * adv)) [0..<m])"
    by (simp only: Suc.IH)
  also have "\<dots> = concat (map (\<lambda>j. body (k + j) (x + real j * adv)) [0..<Suc m])"
    unfolding split by (simp add: comp_def algebra_simps)
  finally show ?case .
qed

lemma bars_loop_positions:
  "bars_loop body adv x [0..<n] = concat (map (\<lambda>i. body i (x + real i * adv)) [0..<n])"
  using bars_loop_shifted [of body adv x 0 n] by simp


text \<open>
  Claim C4. Whenever there is at least one bar to use (in particular for a bar count
  between 1 and the spectrum length, where the bars to use are the bar count), the
  layout of the gradient and solid styles has a bar width and a gap, and the bar width
  taken once per bar plus the gap taken once between neighbours is the width of the
  canvas, exactly, whatever that width is. The loop of either style, started at the
  left edge, puts bar \<open>i\<close> at \<open>i\<close> times bar width plus gap, so that the last bar ends
  exactly at the right edge.
\<close>

theorem bar_layout_fills_width:
  assumes "1 \<le> barsToUse v"
  shows "(barCount (settings v) \<le> int (bufferLength v) \<longrightarrow> barsToUse v = barCount (settings v))
    \<and> (\<exists>w g. barWidth v = Some w \<and> gap v = Some g
         \<and> real_of_int (barsToUse v) * w + (real_of_int (barsToUse v) - 1) * g
             = real (canvas_width v)
         \<and> (\<forall>bar. drawBarsSet v bar 0 1
               = concat (map (\<lambda>i. bar w i (real i * (w + g))) [0..<nat (barsToUse v)]))
         \<and> (real_of_int (barsToUse v) - 1) * (w + g) + w = real (canvas_width v))"
proof -
  have n: "barCount (settings v) \<le> int (bufferLength v) \<longrightarrow> barsToUse v = barCount (settings v)"
    by (simp add: barsToUse_def)
  have pos: "real_of_int (barsToUse v) \<noteq> 0" using assms by simp
  have nz: "barsToUse v \<noteq> 0" using assms by simp
  define w where "w = availableSpace v / real_of_int (barsToUse v)"
  define g where "g = (real (canvas_width v) / real_of_int (barsToUse v)) * (2 / 10)"
  have layout: "barWidth v = Some w" "gap v = Some g"
    using nz by (simp_all add: barWidth_def gap_def w_def g_def)
  have total: "real_of_int (barsToUse v) * w + (real_of_int (barsToUse v) - 1) * g
      = real (canvas_width v)"
    using pos by (simp add: w_def g_def availableSpace_def totalGapSpace_def)
  have loop: "drawBarsSet v bar 0 1
      = concat (map (\<lambda>i. bar w i (real i * (w + g))) [0..<nat (barsToUse v)])" for bar
    by (simp add: drawBarsSet_def layout bars_loop_positions)
  have edge: "(real_of_int (barsToUse v) - 1) * (w + g) + w = real (canvas_width v)"
    using total by (simp add: algebra_simps)
  from n layout total loop edge show ?thesis by blast
qed

theorem bar_layout_fills_width_witness:
  "barsToUse ((new_visualizer 1280 720)\<lparr>bufferLength := 256\<rparr>) = 64
   \<and> barWidth ((new_visualizer 1280 720)\<lparr>bufferLength := 256\<rparr>) = Some (257 / 16)
   \<and> gap ((new_visualizer 1280 720)\<lparr>bufferLength := 256\<rparr>) = Some 4
   \<and> 64 * (257 / 16) + (64 - 1) * 4 = (1280 :: real)"
proof -
  let ?v = "(new_visualizer 1280 720)\<lparr>bufferLength := 256\<rparr>"
  have n: "barsToUse ?v = 64" by (simp add: barsToUse_def new_visualizer_def)
  then have "1 \<le> barsToUse ?v" by simp
  from bar_layout_fills_width [OF this] n
  show ?thesis
    by (simp add: barWidth_def gap_def availableSpace_def totalGapSpace_def new_visualizer_def)
qed

subsection \<open>Mirror modes\<close>




















subsection \<open>Themes that name an inherited member\<close>

text \<open>
  For every theme that is not one of the inherited names, documented or not, the scheme
  is a list of three colours.
\<close>

lemma scheme_or_default_three:
  "key \<notin> set object_prototype_keys \<Longrightarrow>
   \<exists>cs. scheme_or_default key = Colors cs \<and> length cs = 3"
  by (auto simp: scheme_or_default_def schemes_def default_scheme_def split: option.splits if_splits)

lemma getColorScheme_three_colours:
  assumes "colorTheme (settings v) \<notin> set object_prototype_keys"
  shows "\<exists>cs. getColorScheme v = Colors cs \<and> length cs = 3"
proof (cases "colorTheme (settings v) = ''rainbow''")
  case True
  then show ?thesis by (simp add: getColorScheme_def)
next
  case False
  with scheme_or_default_three [OF assms] show ?thesis by (simp add: getColorScheme_def)
qed

lemma exec_gradient_undefined_colour:
  "exec (SetFillStyleGradient (Some pq) [(a, None), (b, None), (c, None)] # ks) d
     = (d, Some SyntaxError)"
  by (cases pq) simp

text \<open>
  Claim C10, evaluated on the code. After \<^verbatim>\<open>setupAudio\<close>, with the colour theme set to the
  string \<^verbatim>\<open>constructor\<close>, the lookup \<^verbatim>\<open>schemes[theme]\<close> finds the member inherited from
  \<^verbatim>\<open>Object.prototype\<close>, which is truthy, so the default scheme is not substituted:
  \<^verbatim>\<open>getColorScheme\<close> returns no list of three colours, the reads of indices 0, 1 and 2
  are undefined, and the frame of the default gradient style stops at the first
  \<^verbatim>\<open>addColorStop\<close> with a SyntaxError, nothing painted.
\<close>

theorem inherited_theme_breaks_scheme:
  "let v = updateSettings (no_update\<lparr>new_colorTheme := Some ''constructor''\<rparr>)
             (setupAudio (new_visualizer 1280 720))
   in getColorScheme v = Inherited ''constructor''
      \<and> color_at (getColorScheme v) 0 = None
      \<and> color_at (getColorScheme v) 1 = None
      \<and> color_at (getColorScheme v) 2 = None
      \<and> exec (draw_visualizer v) new_context = (new_context, Some SyntaxError)"
proof -
  define v where "v = updateSettings (no_update\<lparr>new_colorTheme := Some ''constructor''\<rparr>)
             (setupAudio (new_visualizer 1280 720))"
  have state: "colorTheme (settings v) = ''constructor''" "barStyle (settings v) = ''gradient''"
    "mirrorMode (settings v) = ''none''" "glowIntensity (settings v) = 0"
    "barCount (settings v) = 64" "bufferLength v = 256"
    "dataArray v = Some (replicate 256 0)"
    by (simp_all add: v_def updateSettings_def setupAudio_def new_visualizer_def no_update_def
        merge_settings_def truthy_int_def truthy_nat_def Let_def)
  have scheme: "getColorScheme v = Inherited ''constructor''"
    by (simp add: getColorScheme_def state scheme_or_default_def schemes_def
        object_prototype_keys_def)
  have undefined: "color_at (Inherited ''constructor'') k = None" for k
    by (simp add: color_at_def)
  have n: "barsToUse v = 64" by (simp add: barsToUse_def state)
  have indices: "[0..<nat (barsToUse v)] = 0 # [Suc 0..<64]"
    by (simp add: n upt_conv_Cons)
  have "barsToUse v \<noteq> 0" by (simp add: n)
  then obtain w g where layout: "barWidth v = Some w" "gap v = Some g"
    unfolding barWidth_def gap_def by (simp only: if_False)
  have height: "barHeight v (dataIndex v 0) = Some 0"
    by (simp add: barHeight_def dataIndex_def typed_read_def state)
  have "\<exists>pq ks. draw_visualizer v
      = SetFillStyleGradient (Some pq) [(0, None), (1 / 2, None), (1, None)] # ks"
    by (simp add: draw_visualizer_def Let_def scheme state drawGradientBars_def glow_def
        applyMirrorMode_def drawBarsSet_def layout indices gradient_bar_def height undefined)
  then obtain pq ks where "draw_visualizer v
      = SetFillStyleGradient (Some pq) [(0, None), (1 / 2, None), (1, None)] # ks"
    by blast
  then have "exec (draw_visualizer v) new_context = (new_context, Some SyntaxError)"
    by (simp only: exec_gradient_undefined_colour)
  with scheme undefined show ?thesis
    unfolding Let_def v_def [symmetric] by simp
qed

end
